theory Spec2Isabelle
  imports Main
begin

section \<open>The user administration screen (src/modules/Users.jsx)\<close>

text \<open>
  The component keeps a local React state (four dialog flags, the user the open dialog is
  about, and the transient input of the ban and scope dialogs) and talks to the Redux store
  only by dispatching REST actions. Each event handler is modelled as a function from the
  local state to either a raised error or the new local state together with the list of
  actions it dispatched, in order. \<open>setState\<close> merges the given keys into the state, which is
  a record update.
\<close>

subsection \<open>Data\<close>

text \<open>A row of \<open>this.props.users.data\<close>: the fields \<open>id\<close>, \<open>email\<close>, \<open>scope\<close>, \<open>active\<close>.\<close>

record user =
  user_id :: int
  user_email :: string
  user_scope :: string
  user_active :: bool

text \<open>\<open>state.banInfo.expire\<close> and \<open>state.banInfo\<close>.\<close>

record expire_info =
  amount :: string
  indicator :: string

record ban_info =
  reason :: string
  expire :: expire_info

text \<open>
  The value of a state key that the initial state may not declare: reading an absent key
  gives \<open>undefined\<close>. A dialog is shown when its \<open>isOpen\<close> value is truthy.
\<close>

datatype flag = Undefined | Flag bool

fun truthy :: "flag \<Rightarrow> bool" where
  "truthy Undefined = False"
| "truthy (Flag b) = b"

text \<open>
  The local state. The class initialiser declares the key \<open>openScopeModal\<close> (kept here as
  \<open>openScopeModal_key\<close>, since the handler of the same name is a constant of its own); the
  key \<open>scopeDialogOpen\<close>, which the scope dialog reads, first appears when a handler sets it.
\<close>

record state =
  dialogOpen :: bool
  deleteUserDialogOpen :: bool
  banUserDialogOpen :: bool
  openScopeModal_key :: bool
  scopeDialogOpen :: flag
  tempUserForDialogs :: "user option"
  scope :: "string option"
  banInfo :: ban_info

text \<open>The object \<open>info\<close> that \<open>banUser\<close> serialises into the request body.\<close>

record ban_body =
  body_reason :: string
  body_expire :: string

text \<open>The object literal given to \<open>updateUser\<close>: \<open>{active: checked}\<close> or \<open>{scope: this.state.scope}\<close>.\<close>

datatype update = ActiveField bool | ScopeField "string option"

text \<open>
  The actions handed to \<open>dispatch\<close>. A remote call carries its path parameter \<open>userId\<close>, the
  object serialised into its body (the delete call passes \<open>null\<close> there), and its
  completion callback, given by the actions that the callback dispatches when the REST
  client runs it.
\<close>

datatype action =
    Users_get
  | UserDetails_get int
  | UserDetails_delete int "action list"
  | BanUser_post int ban_body "action list"
  | UserDetails_patch int update "action list"

text \<open>Reading \<open>user.id\<close> of \<open>null\<close> raises a TypeError.\<close>

datatype error = TypeError

subsection \<open>mapDispatchToProps\<close>

definition refresh :: "action list" where
  "refresh = [Users_get]"

definition refreshUser :: "user \<Rightarrow> action list" where
  "refreshUser u = [UserDetails_get (user_id u)]"

definition deleteUser :: "user option \<Rightarrow> error + action list" where
  "deleteUser usr =
     (case usr of
        None \<Rightarrow> Inl TypeError
      | Some u \<Rightarrow> Inr [UserDetails_delete (user_id u) [Users_get]])"

definition banUser :: "user option \<Rightarrow> ban_info \<Rightarrow> error + action list" where
  "banUser usr bi =
     (let info = \<lparr> body_reason = reason bi,
                   body_expire =
                     (if amount (expire bi) = [] \<or> indicator (expire bi) = [] then ''x''
                      else amount (expire bi) @ '':'' @ indicator (expire bi)) \<rparr>
      in case usr of
           None \<Rightarrow> Inl TypeError
         | Some u \<Rightarrow> Inr [BanUser_post (user_id u) info [Users_get]])"

definition updateUser :: "user option \<Rightarrow> update \<Rightarrow> error + action list" where
  "updateUser usr upd =
     (case usr of
        None \<Rightarrow> Inl TypeError
      | Some u \<Rightarrow> Inr [UserDetails_patch (user_id u) upd [Users_get]])"

subsection \<open>The component\<close>

definition empty_banInfo :: ban_info where
  "empty_banInfo = \<lparr> reason = [], expire = \<lparr> amount = [], indicator = [] \<rparr> \<rparr>"

definition initial_state :: state where
  "initial_state =
     \<lparr> dialogOpen = False,
       deleteUserDialogOpen = False,
       banUserDialogOpen = False,
       openScopeModal_key = False,
       scopeDialogOpen = Undefined,
       tempUserForDialogs = None,
       scope = None,
       banInfo = empty_banInfo \<rparr>"

definition componentDidMount :: "action list" where
  "componentDidMount = refresh"

text \<open>Mounting: the class initialiser gives the state, then \<open>componentDidMount\<close> runs.\<close>

definition mount :: "state \<times> action list" where
  "mount = (initial_state, componentDidMount)"

definition openDeleteModal :: "user \<Rightarrow> state \<Rightarrow> state" where
  "openDeleteModal u s = s\<lparr> deleteUserDialogOpen := True, tempUserForDialogs := Some u \<rparr>"

definition openBanModal :: "user \<Rightarrow> state \<Rightarrow> state" where
  "openBanModal u s = s\<lparr> banUserDialogOpen := True, tempUserForDialogs := Some u \<rparr>"

definition openScopeModal :: "user \<Rightarrow> string \<Rightarrow> state \<Rightarrow> state" where
  "openScopeModal u sc s =
     s\<lparr> scopeDialogOpen := Flag True, tempUserForDialogs := Some u, scope := Some sc \<rparr>"

text \<open>
  The events of the screen, one per handler of \<open>renderUserRow\<close>, \<open>renderUserBanDesc\<close> and
  \<open>renderDialogs\<close>. \<open>BanSubmit\<close> carries \<open>data.value\<close>, the text of the dialog's reason field.
\<close>

datatype event =
    DetailsClick user
  | DeleteClick user
  | BanClick user
  | ScopeChange user string
  | SwitchChange user bool
  | AmountChange string
  | IndicatorChange string
  | DetailSubmit
  | DetailClose
  | DeleteSubmit
  | DeleteClose
  | BanSubmit string
  | BanClose
  | ScopeSubmit
  | ScopeClose

text \<open>
  A handler that calls a dispatching prop first and \<open>setState\<close> afterwards does not reach the
  \<open>setState\<close> when the prop raises. The ban dialog's submit first merges the reason into
  \<open>banInfo\<close>, and in the callback of that \<open>setState\<close> reads the merged state, calls
  \<open>banUser\<close> and resets.
\<close>

fun handle :: "event \<Rightarrow> state \<Rightarrow> error + state \<times> action list" where
  "handle (DetailsClick u) s = Inr (s\<lparr> dialogOpen := True \<rparr>, refreshUser u)"
| "handle (DeleteClick u) s = Inr (openDeleteModal u s, [])"
| "handle (BanClick u) s = Inr (openBanModal u s, [])"
| "handle (ScopeChange u sc) s = Inr (openScopeModal u sc s, [])"
| "handle (SwitchChange u checked) s =
     (case updateUser (Some u) (ActiveField checked) of
        Inl e \<Rightarrow> Inl e
      | Inr acts \<Rightarrow> Inr (s, acts))"
| "handle (AmountChange v) s =
     Inr (s\<lparr> banInfo := (banInfo s)\<lparr> expire := (expire (banInfo s))\<lparr> amount := v \<rparr> \<rparr> \<rparr>, [])"
| "handle (IndicatorChange v) s =
     Inr (s\<lparr> banInfo := (banInfo s)\<lparr> expire := (expire (banInfo s))\<lparr> indicator := v \<rparr> \<rparr> \<rparr>, [])"
| "handle DetailSubmit s = Inr (s\<lparr> dialogOpen := False \<rparr>, [])"
| "handle DetailClose s = Inr (s\<lparr> dialogOpen := False \<rparr>, [])"
| "handle DeleteSubmit s =
     (case deleteUser (tempUserForDialogs s) of
        Inl e \<Rightarrow> Inl e
      | Inr acts \<Rightarrow>
          Inr (s\<lparr> tempUserForDialogs := None, deleteUserDialogOpen := False \<rparr>, acts))"
| "handle DeleteClose s =
     Inr (s\<lparr> tempUserForDialogs := None, deleteUserDialogOpen := False \<rparr>, [])"
| "handle (BanSubmit v) s =
     (let s1 = s\<lparr> banInfo := (banInfo s)\<lparr> reason := v \<rparr> \<rparr>
      in case banUser (tempUserForDialogs s1) (banInfo s1) of
           Inl e \<Rightarrow> Inl e
         | Inr acts \<Rightarrow>
             Inr (s1\<lparr> tempUserForDialogs := None, banInfo := empty_banInfo,
                      banUserDialogOpen := False \<rparr>, acts))"
| "handle BanClose s =
     Inr (s\<lparr> tempUserForDialogs := None, banInfo := empty_banInfo,
             banUserDialogOpen := False \<rparr>, [])"
| "handle ScopeSubmit s =
     (case updateUser (tempUserForDialogs s) (ScopeField (scope s)) of
        Inl e \<Rightarrow> Inl e
      | Inr acts \<Rightarrow>
          Inr (s\<lparr> scope := None, scopeDialogOpen := Flag False, tempUserForDialogs := None \<rparr>,
               acts))"
| "handle ScopeClose s =
     Inr (s\<lparr> scope := None, scopeDialogOpen := Flag False, tempUserForDialogs := None \<rparr>, [])"

text \<open>
  \<open>renderUserRow\<close>: what a table row shows and which event each of its controls raises.
  \<open>render\<close> maps it over \<open>this.props.users.data\<close>.
\<close>

record row =
  row_key :: int
  select_value :: string
  select_onChange :: "string \<Rightarrow> event"
  switch_checked :: bool
  switch_onChange :: "bool \<Rightarrow> event"
  details_onClick :: event
  delete_onClick :: event
  ban_onClick :: event

definition renderUserRow :: "user \<Rightarrow> row" where
  "renderUserRow u =
     \<lparr> row_key = user_id u,
       select_value = user_scope u,
       select_onChange = (\<lambda>v. ScopeChange u v),
       switch_checked = user_active u,
       switch_onChange = (\<lambda>checked. SwitchChange u checked),
       details_onClick = DetailsClick u,
       delete_onClick = DeleteClick u,
       ban_onClick = BanClick u \<rparr>"

definition render_rows :: "user list \<Rightarrow> row list" where
  "render_rows us = map renderUserRow us"

subsection \<open>Observations on states and dispatched actions\<close>

text \<open>The \<open>isOpen\<close> values of the four dialogs, in the order of \<open>renderDialogs\<close>.\<close>

definition open_flags :: "state \<Rightarrow> bool list" where
  "open_flags s =
     [dialogOpen s, deleteUserDialogOpen s, banUserDialogOpen s, truthy (scopeDialogOpen s)]"

definition open_count :: "state \<Rightarrow> nat" where
  "open_count s = length (filter (\<lambda>b. b) (open_flags s))"

text \<open>The actions a remote call's completion callback dispatches.\<close>

fun on_complete :: "action \<Rightarrow> action list" where
  "on_complete Users_get = []"
| "on_complete (UserDetails_get i) = []"
| "on_complete (UserDetails_delete i cb) = cb"
| "on_complete (BanUser_post i b cb) = cb"
| "on_complete (UserDetails_patch i upd cb) = cb"

text \<open>User-list refreshes dispatched directly, and by the completion callbacks.\<close>

definition direct_refreshes :: "action list \<Rightarrow> nat" where
  "direct_refreshes acts = count_list acts Users_get"

definition completion_refreshes :: "action list \<Rightarrow> nat" where
  "completion_refreshes acts = count_list (concat (map on_complete acts)) Users_get"

text \<open>
  The store changes only through dispatched actions; \<open>rd\<close> stands for whatever the REST
  client and the reducers do with one action.
\<close>

definition dispatch_all :: "(action \<Rightarrow> 'st \<Rightarrow> 'st) \<Rightarrow> action list \<Rightarrow> 'st \<Rightarrow> 'st" where
  "dispatch_all rd acts st = fold rd acts st"

subsection \<open>Event sequences of the modal screen\<close>

text \<open>
  Modelled from the spec: the enabling condition of each trigger (the From column of the
  transition table); the dialog component that shows a dialog's controls only while it is
  open, and covers the table meanwhile, is not part of the source file. Row buttons and the
  scope selector act in the closed state, the controls of a dialog while that dialog is
  open, the active switch in any state.
\<close>

fun enabled :: "state \<Rightarrow> event \<Rightarrow> bool" where
  "enabled s (DetailsClick u) = (open_count s = 0)"
| "enabled s (DeleteClick u) = (open_count s = 0)"
| "enabled s (BanClick u) = (open_count s = 0)"
| "enabled s (ScopeChange u sc) = (open_count s = 0)"
| "enabled s (SwitchChange u checked) = True"
| "enabled s (AmountChange v) = banUserDialogOpen s"
| "enabled s (IndicatorChange v) = banUserDialogOpen s"
| "enabled s DetailSubmit = dialogOpen s"
| "enabled s DetailClose = dialogOpen s"
| "enabled s DeleteSubmit = deleteUserDialogOpen s"
| "enabled s DeleteClose = deleteUserDialogOpen s"
| "enabled s (BanSubmit v) = banUserDialogOpen s"
| "enabled s BanClose = banUserDialogOpen s"
| "enabled s ScopeSubmit = truthy (scopeDialogOpen s)"
| "enabled s ScopeClose = truthy (scopeDialogOpen s)"

text \<open>
  Running a sequence of events, each one enabled where it fires; the run has no result when
  an event is not enabled or its handler raises.
\<close>

fun run_modal :: "event list \<Rightarrow> state \<Rightarrow> state option" where
  "run_modal [] s = Some s"
| "run_modal (e # es) s =
     (if enabled s e
      then (case handle e s of Inl err \<Rightarrow> None | Inr (s', acts) \<Rightarrow> run_modal es s')
      else None)"

text \<open>Which events are the submit of a dialog, the close of a dialog, and which of them
  belong to a dialog that holds the pending user.\<close>

fun is_submit :: "event \<Rightarrow> bool" where
  "is_submit DetailSubmit = True"
| "is_submit DeleteSubmit = True"
| "is_submit (BanSubmit v) = True"
| "is_submit ScopeSubmit = True"
| "is_submit e = False"

fun is_close :: "event \<Rightarrow> bool" where
  "is_close DetailClose = True"
| "is_close DeleteClose = True"
| "is_close BanClose = True"
| "is_close ScopeClose = True"
| "is_close e = False"

fun is_open_trigger :: "event \<Rightarrow> bool" where
  "is_open_trigger (DetailsClick u) = True"
| "is_open_trigger (DeleteClick u) = True"
| "is_open_trigger (BanClick u) = True"
| "is_open_trigger (ScopeChange u sc) = True"
| "is_open_trigger e = False"

fun clears_subject :: "event \<Rightarrow> bool" where
  "clears_subject DeleteSubmit = True"
| "clears_subject DeleteClose = True"
| "clears_subject (BanSubmit v) = True"
| "clears_subject BanClose = True"
| "clears_subject ScopeSubmit = True"
| "clears_subject ScopeClose = True"
| "clears_subject e = False"

text \<open>The closed state with every transient field at its default.\<close>

definition closed_default :: "state \<Rightarrow> bool" where
  "closed_default s \<longleftrightarrow>
     open_count s = 0 \<and> tempUserForDialogs s = None \<and> scope s = None
     \<and> banInfo s = empty_banInfo"

text \<open>
  What holds of the local state along every run of the modal screen: at most one dialog
  is open, the pending user is set exactly while the delete, ban or scope dialog is open,
  and the input of the ban and scope dialogs is at its default while they are closed.
\<close>

definition modal_inv :: "state \<Rightarrow> bool" where
  "modal_inv s \<longleftrightarrow>
     open_count s \<le> 1
     \<and> (tempUserForDialogs s \<noteq> None \<longleftrightarrow>
          deleteUserDialogOpen s \<or> banUserDialogOpen s \<or> truthy (scopeDialogOpen s))
     \<and> (\<not> banUserDialogOpen s \<longrightarrow> banInfo s = empty_banInfo)
     \<and> (\<not> truthy (scopeDialogOpen s) \<longrightarrow> scope s = None)"

text \<open>Two rows used in the examples.\<close>

definition user1 :: user where
  "user1 = \<lparr> user_id = 1, user_email = ''a@x.com'', user_scope = ''user'', user_active = False \<rparr>"

definition user2 :: user where
  "user2 = \<lparr> user_id = 2, user_email = ''b@x.com'', user_scope = ''admin'', user_active = True \<rparr>"

text \<open>The events that issue a remote mutation, and the events of the detail dialog.\<close>

fun is_mutating :: "event \<Rightarrow> bool" where
  "is_mutating DeleteSubmit = True"
| "is_mutating (BanSubmit v) = True"
| "is_mutating ScopeSubmit = True"
| "is_mutating (SwitchChange u checked) = True"
| "is_mutating e = False"

fun detail_event :: "event \<Rightarrow> bool" where
  "detail_event (DetailsClick u) = True"
| "detail_event DetailSubmit = True"
| "detail_event DetailClose = True"
| "detail_event e = False"

text \<open>The state of the ban dialog after typing the amount 5 and choosing the unit days.\<close>

definition ban_5_days :: state where
  "ban_5_days =
     (openBanModal user1 initial_state)
       \<lparr> banInfo := \<lparr> reason = [], expire = \<lparr> amount = ''5'', indicator = ''days'' \<rparr> \<rparr> \<rparr>"

section \<open>Properties\<close>

subsection \<open>The invariant of the modal screen\<close>

lemma open_count_simp:
  "open_count s = (if dialogOpen s then 1 else 0) + (if deleteUserDialogOpen s then 1 else 0)
     + (if banUserDialogOpen s then 1 else 0) + (if truthy (scopeDialogOpen s) then 1 else 0)"
  by (simp add: open_count_def open_flags_def)

lemma modal_inv_initial: "modal_inv initial_state"
  by (simp add: modal_inv_def open_count_simp initial_state_def)

lemma modal_inv_step:
  assumes "modal_inv s" and "enabled s e" and "handle e s = Inr (s', acts)"
  shows "modal_inv s'"
proof (cases e)
  case (DetailsClick u)
  with assms show ?thesis
    by (auto simp: modal_inv_def open_count_simp split: if_splits)
next
  case (DeleteClick u)
  with assms show ?thesis
    by (auto simp: modal_inv_def open_count_simp openDeleteModal_def split: if_splits)
next
  case (BanClick u)
  with assms show ?thesis
    by (auto simp: modal_inv_def open_count_simp openBanModal_def split: if_splits)
next
  case (ScopeChange u sc)
  with assms show ?thesis
    by (auto simp: modal_inv_def open_count_simp openScopeModal_def split: if_splits)
next
  case (SwitchChange u c)
  with assms show ?thesis
    by (auto simp: updateUser_def)
next
  case (AmountChange v)
  with assms show ?thesis
    by (auto simp: modal_inv_def open_count_simp split: if_splits)
next
  case (IndicatorChange v)
  with assms show ?thesis
    by (auto simp: modal_inv_def open_count_simp split: if_splits)
next
  case DetailSubmit
  with assms show ?thesis
    by (auto simp: modal_inv_def open_count_simp split: if_splits)
next
  case DetailClose
  with assms show ?thesis
    by (auto simp: modal_inv_def open_count_simp split: if_splits)
next
  case DeleteSubmit
  with assms show ?thesis
    by (auto simp: modal_inv_def open_count_simp deleteUser_def split: if_splits option.splits)
next
  case DeleteClose
  with assms show ?thesis
    by (auto simp: modal_inv_def open_count_simp split: if_splits)
next
  case (BanSubmit v)
  with assms show ?thesis
    by (auto simp: modal_inv_def open_count_simp banUser_def Let_def split: if_splits option.splits)
next
  case BanClose
  with assms show ?thesis
    by (auto simp: modal_inv_def open_count_simp split: if_splits)
next
  case ScopeSubmit
  with assms show ?thesis
    by (auto simp: modal_inv_def open_count_simp updateUser_def split: if_splits option.splits)
next
  case ScopeClose
  with assms show ?thesis
    by (auto simp: modal_inv_def open_count_simp split: if_splits)
qed

lemma modal_inv_run:
  "modal_inv s \<Longrightarrow> run_modal evs s = Some s' \<Longrightarrow> modal_inv s'"
proof (induction evs arbitrary: s)
  case Nil
  then show ?case by simp
next
  case (Cons e es)
  from Cons.prems(2) obtain s1 acts where en: "enabled s e"
    and h: "handle e s = Inr (s1, acts)" and r: "run_modal es s1 = Some s'"
    by (auto split: if_splits sum.splits)
  from Cons.prems(1) en h have "modal_inv s1" by (rule modal_inv_step)
  then show ?case using r by (rule Cons.IH)
qed

lemma modal_inv_reachable: "run_modal evs initial_state = Some s \<Longrightarrow> modal_inv s"
  using modal_inv_initial by (rule modal_inv_run)

subsection \<open>Mounting\<close>

text \<open>
  Claim C9. On mount the dialog state machine is closed: \<open>dialogOpen\<close>,
  \<open>deleteUserDialogOpen\<close> and \<open>banUserDialogOpen\<close> are false and the scope dialog's
  \<open>scopeDialogOpen\<close> is not truthy (the initialiser leaves that key undefined), so no dialog
  is open; the pending subject is null, the pending scope is null, and the ban reason,
  amount and unit are the empty string.
\<close>

theorem mount_state_closed:
  "fst mount = initial_state
   \<and> dialogOpen (fst mount) = False
   \<and> deleteUserDialogOpen (fst mount) = False
   \<and> banUserDialogOpen (fst mount) = False
   \<and> scopeDialogOpen (fst mount) = Undefined
   \<and> \<not> truthy (scopeDialogOpen (fst mount))
   \<and> open_count (fst mount) = 0
   \<and> tempUserForDialogs (fst mount) = None
   \<and> scope (fst mount) = None
   \<and> reason (banInfo (fst mount)) = []
   \<and> amount (expire (banInfo (fst mount))) = []
   \<and> indicator (expire (banInfo (fst mount))) = []"
  by (simp add: mount_def initial_state_def empty_banInfo_def open_count_simp)

text \<open>
  Claim C10. Mounting dispatches exactly one action, the user-list refresh of
  \<open>componentDidMount\<close>; it takes no event, so it does not depend on any interaction.
\<close>

theorem mount_dispatches_one_refresh:
  "snd mount = [Users_get] \<and> direct_refreshes (snd mount) = 1 \<and> length (snd mount) = 1"
  by (simp add: mount_def componentDidMount_def refresh_def direct_refreshes_def)

subsection \<open>At most one dialog\<close>

text \<open>
  Claim C1 fails as stated: an open trigger sets its own flag only. After the ban button of
  one row, the delete handler of another row leaves the ban dialog open, and two flags are
  true together.
\<close>

theorem two_dialogs_open_counterexample:
  "run_modal [BanClick user2] initial_state = Some (openBanModal user2 initial_state)
   \<and> handle (DeleteClick user1) (openBanModal user2 initial_state)
       = Inr (openDeleteModal user1 (openBanModal user2 initial_state), [])
   \<and> banUserDialogOpen (openDeleteModal user1 (openBanModal user2 initial_state))
   \<and> deleteUserDialogOpen (openDeleteModal user1 (openBanModal user2 initial_state))
   \<and> open_count (openDeleteModal user1 (openBanModal user2 initial_state)) = 2"
  by (simp add: openBanModal_def openDeleteModal_def initial_state_def open_count_simp)

text \<open>
  Claim C1, amended. In every state reached from mount by events that fire as the
  transition table has them (an open trigger in the closed state, a dialog's controls while
  that dialog is open) at most one of the four dialogs is open, and an open trigger fired
  there leaves exactly one open. The handlers themselves close nothing: in any state
  whatever, every dialog that was open before an open trigger is still open after it.
\<close>

theorem one_dialog_open_modal:
  assumes "run_modal evs initial_state = Some s"
  shows "open_count s \<le> 1
         \<and> (\<forall>e s' acts. is_open_trigger e \<and> enabled s e \<and> handle e s = Inr (s', acts)
               \<longrightarrow> open_count s' = 1)
         \<and> (\<forall>e t t' acts. is_open_trigger e \<and> handle e t = Inr (t', acts)
               \<longrightarrow> list_all2 (\<lambda>b b'. b \<longrightarrow> b') (open_flags t) (open_flags t'))"
proof (intro conjI allI impI)
  from assms have "modal_inv s" by (rule modal_inv_reachable)
  then show "open_count s \<le> 1" by (simp add: modal_inv_def)
next
  fix e s' acts
  assume "is_open_trigger e \<and> enabled s e \<and> handle e s = Inr (s', acts)"
  then show "open_count s' = 1"
    by (cases e)
      (auto simp: open_count_simp openDeleteModal_def openBanModal_def openScopeModal_def
        split: if_splits)
next
  fix e t t' acts
  assume "is_open_trigger e \<and> handle e t = Inr (t', acts)"
  then show "list_all2 (\<lambda>b b'. b \<longrightarrow> b') (open_flags t) (open_flags t')"
    by (cases e)
      (auto simp: open_flags_def openDeleteModal_def openBanModal_def openScopeModal_def)
qed

theorem one_dialog_open_modal_witness:
  "run_modal [BanClick user2, BanClose, DeleteClick user1] initial_state
     = Some ((openDeleteModal user1 initial_state)\<lparr> banInfo := empty_banInfo \<rparr>)
   \<and> open_count ((openDeleteModal user1 initial_state)\<lparr> banInfo := empty_banInfo \<rparr>) \<le> 1
   \<and> open_count ((openDeleteModal user1 initial_state)\<lparr> banInfo := empty_banInfo \<rparr>) = 1"
  using one_dialog_open_modal [of "[BanClick user2, BanClose, DeleteClick user1]"
      "(openDeleteModal user1 initial_state)\<lparr> banInfo := empty_banInfo \<rparr>"]
  by (simp add: openBanModal_def openDeleteModal_def initial_state_def open_count_simp)

subsection \<open>The pending subject\<close>

text \<open>
  Claim C2 fails as stated: the show-details button opens the detail dialog without setting
  \<open>tempUserForDialogs\<close>, so right after mount a dialog is open while the subject is null.
\<close>

theorem detail_open_without_subject_counterexample:
  "run_modal [DetailsClick user1] initial_state = Some (initial_state\<lparr> dialogOpen := True \<rparr>)
   \<and> dialogOpen (initial_state\<lparr> dialogOpen := True \<rparr>)
   \<and> open_count (initial_state\<lparr> dialogOpen := True \<rparr>) = 1
   \<and> tempUserForDialogs (initial_state\<lparr> dialogOpen := True \<rparr>) = None"
  by (simp add: initial_state_def open_count_simp)

text \<open>
  Claim C2, amended. In every state reached from mount by events that fire as the
  transition table has them, the pending subject is non-null whenever the delete, ban or
  scope dialog is open, and an event takes it from non-null to null exactly when it is the
  submit or the close of one of these three dialogs. The detail dialog does not use the
  pending subject: its open trigger, its submit and its close leave it as it was.
\<close>

theorem subject_set_while_subject_dialog_open:
  assumes "run_modal evs initial_state = Some s"
  shows "(deleteUserDialogOpen s \<or> banUserDialogOpen s \<or> truthy (scopeDialogOpen s)
            \<longrightarrow> tempUserForDialogs s \<noteq> None)
         \<and> (\<forall>e s' acts. enabled s e \<and> handle e s = Inr (s', acts)
               \<longrightarrow> ((tempUserForDialogs s \<noteq> None \<and> tempUserForDialogs s' = None)
                      \<longleftrightarrow> clears_subject e))
         \<and> (\<forall>e t t' acts. detail_event e \<and> handle e t = Inr (t', acts)
               \<longrightarrow> tempUserForDialogs t' = tempUserForDialogs t)"
proof (intro conjI allI impI)
  from assms have inv: "modal_inv s" by (rule modal_inv_reachable)
  {
    assume "deleteUserDialogOpen s \<or> banUserDialogOpen s \<or> truthy (scopeDialogOpen s)"
    with inv show "tempUserForDialogs s \<noteq> None" by (simp add: modal_inv_def)
  }
  {
    fix e s' acts
    assume h: "enabled s e \<and> handle e s = Inr (s', acts)"
    with inv show "(tempUserForDialogs s \<noteq> None \<and> tempUserForDialogs s' = None)
                      \<longleftrightarrow> clears_subject e"
      by (cases e)
        (auto simp: modal_inv_def open_count_simp openDeleteModal_def openBanModal_def
          openScopeModal_def updateUser_def deleteUser_def banUser_def Let_def
          split: if_splits option.splits)
  }
  {
    fix e t t' acts
    assume "detail_event e \<and> handle e t = Inr (t', acts)"
    then show "tempUserForDialogs t' = tempUserForDialogs t"
      by (cases e) auto
  }
qed

theorem subject_set_while_subject_dialog_open_witness:
  "run_modal [DeleteClick user1] initial_state = Some (openDeleteModal user1 initial_state)
   \<and> deleteUserDialogOpen (openDeleteModal user1 initial_state)
   \<and> tempUserForDialogs (openDeleteModal user1 initial_state) \<noteq> None
   \<and> enabled (openDeleteModal user1 initial_state) DeleteClose
   \<and> clears_subject DeleteClose
   \<and> handle DeleteClose (openDeleteModal user1 initial_state)
       = Inr (initial_state\<lparr> deleteUserDialogOpen := False \<rparr>, [])
   \<and> tempUserForDialogs (initial_state\<lparr> deleteUserDialogOpen := False \<rparr>) = None"
  using subject_set_while_subject_dialog_open [of "[DeleteClick user1]"
      "openDeleteModal user1 initial_state"]
  by (simp add: openDeleteModal_def initial_state_def open_count_simp)

subsection \<open>The ban dialog\<close>

text \<open>
  Claim C3. Submitting the ban dialog for a pending user sends one ban call whose expiry
  token is \<open>x\<close> when the amount or the unit is the empty string, and the amount, a colon
  and the unit otherwise; the reason is the text of the dialog's field.
\<close>

theorem ban_expiry_token:
  assumes "tempUserForDialogs s = Some u"
  shows "handle (BanSubmit r) s
           = Inr (s\<lparr> tempUserForDialogs := None, banInfo := empty_banInfo,
                     banUserDialogOpen := False \<rparr>,
                  [BanUser_post (user_id u)
                     \<lparr> body_reason = r,
                       body_expire =
                         (if amount (expire (banInfo s)) = [] \<or> indicator (expire (banInfo s)) = []
                          then ''x''
                          else amount (expire (banInfo s)) @ '':'' @ indicator (expire (banInfo s))) \<rparr>
                     [Users_get]])"
  using assms by (simp add: banUser_def Let_def)

text \<open>The two examples of the claim: empty amount and unit give \<open>x\<close>, 5 and days give \<open>5:days\<close>.\<close>

theorem ban_expiry_token_witness:
  "run_modal [BanClick user1] initial_state = Some (openBanModal user1 initial_state)
   \<and> tempUserForDialogs (openBanModal user1 initial_state) = Some user1
   \<and> map_sum id snd (handle (BanSubmit ''spam'') (openBanModal user1 initial_state))
      = Inr [BanUser_post 1 \<lparr> body_reason = ''spam'', body_expire = ''x'' \<rparr> [Users_get]]
   \<and> run_modal [BanClick user1, AmountChange ''5'', IndicatorChange ''days''] initial_state
      = Some ban_5_days
   \<and> tempUserForDialogs ban_5_days = Some user1
   \<and> map_sum id snd (handle (BanSubmit ''spam'') ban_5_days)
      = Inr [BanUser_post 1 \<lparr> body_reason = ''spam'', body_expire = ''5:days'' \<rparr> [Users_get]]"
  using ban_expiry_token [of "openBanModal user1 initial_state" user1 "''spam''"]
    ban_expiry_token [of ban_5_days user1 "''spam''"]
  by (simp add: ban_5_days_def openBanModal_def initial_state_def empty_banInfo_def user1_def
      open_count_simp)

text \<open>
  Claim C7. In a closed state of the screen, the ban button of the row of user \<open>u\<close> opens
  the ban dialog, and only it, with subject \<open>u\<close> and with reason, amount and unit all
  the empty string; it dispatches nothing.
\<close>

theorem ban_click_opens_with_empty_fields:
  assumes "run_modal evs initial_state = Some s" and "open_count s = 0"
  shows "handle (ban_onClick (renderUserRow u)) s = Inr (openBanModal u s, [])
         \<and> banUserDialogOpen (openBanModal u s)
         \<and> open_count (openBanModal u s) = 1
         \<and> tempUserForDialogs (openBanModal u s) = Some u
         \<and> reason (banInfo (openBanModal u s)) = []
         \<and> amount (expire (banInfo (openBanModal u s))) = []
         \<and> indicator (expire (banInfo (openBanModal u s))) = []"
proof -
  from assms(1) have "modal_inv s" by (rule modal_inv_reachable)
  with assms(2) show ?thesis
    by (auto simp: modal_inv_def renderUserRow_def openBanModal_def open_count_simp
        empty_banInfo_def split: if_splits)
qed

theorem ban_click_opens_with_empty_fields_witness:
  "run_modal [BanClick user2, AmountChange ''5'', BanClose] initial_state
     = Some (initial_state\<lparr> banUserDialogOpen := False \<rparr>)
   \<and> open_count (initial_state\<lparr> banUserDialogOpen := False \<rparr>) = 0
   \<and> handle (ban_onClick (renderUserRow user1)) (initial_state\<lparr> banUserDialogOpen := False \<rparr>)
       = Inr (openBanModal user1 (initial_state\<lparr> banUserDialogOpen := False \<rparr>), [])
   \<and> amount (expire (banInfo (openBanModal user1 (initial_state\<lparr> banUserDialogOpen := False \<rparr>))))
       = []"
  using ban_click_opens_with_empty_fields
    [of "[BanClick user2, AmountChange ''5'', BanClose]"
      "initial_state\<lparr> banUserDialogOpen := False \<rparr>" user1]
  by (simp add: openBanModal_def initial_state_def open_count_simp empty_banInfo_def)

subsection \<open>Mutations and the list refresh\<close>

text \<open>
  Claim C4. Each mutating operation (delete, ban, the scope patch and the active patch)
  dispatches one remote call; that call's completion callback dispatches exactly one
  user-list refresh, and the operation dispatches no refresh directly. This holds of the
  handlers whenever the pending subject is set (the switch needs none), and of the three
  dispatching props for every user.
\<close>

theorem mutation_refreshes_once_on_completion:
  "(is_mutating e \<and> tempUserForDialogs s = Some u
      \<longrightarrow> (\<exists>s' a. handle e s = Inr (s', [a]) \<and> on_complete a = [Users_get]
                  \<and> completion_refreshes [a] = 1 \<and> direct_refreshes [a] = 0))
   \<and> (\<exists>a. handle (SwitchChange w checked) s = Inr (s, [a]) \<and> on_complete a = [Users_get]
                  \<and> completion_refreshes [a] = 1 \<and> direct_refreshes [a] = 0)
   \<and> (\<forall>r \<in> {deleteUser (Some u), banUser (Some u) bi, updateUser (Some u) upd}.
         \<exists>a. r = Inr [a] \<and> on_complete a = [Users_get]
              \<and> completion_refreshes [a] = 1 \<and> direct_refreshes [a] = 0)"
proof (intro conjI impI)
  assume "is_mutating e \<and> tempUserForDialogs s = Some u"
  then show "\<exists>s' a. handle e s = Inr (s', [a]) \<and> on_complete a = [Users_get]
                  \<and> completion_refreshes [a] = 1 \<and> direct_refreshes [a] = 0"
    by (cases e)
      (simp_all add: deleteUser_def banUser_def updateUser_def Let_def
        completion_refreshes_def direct_refreshes_def)
next
  show "\<exists>a. handle (SwitchChange w checked) s = Inr (s, [a]) \<and> on_complete a = [Users_get]
                  \<and> completion_refreshes [a] = 1 \<and> direct_refreshes [a] = 0"
    by (simp add: updateUser_def completion_refreshes_def direct_refreshes_def)
next
  show "\<forall>r \<in> {deleteUser (Some u), banUser (Some u) bi, updateUser (Some u) upd}.
         \<exists>a. r = Inr [a] \<and> on_complete a = [Users_get]
              \<and> completion_refreshes [a] = 1 \<and> direct_refreshes [a] = 0"
    by (simp add: deleteUser_def banUser_def updateUser_def Let_def
        completion_refreshes_def direct_refreshes_def)
qed

theorem mutation_refreshes_once_on_completion_witness:
  "is_mutating DeleteSubmit
   \<and> tempUserForDialogs (openDeleteModal user1 initial_state) = Some user1
   \<and> handle DeleteSubmit (openDeleteModal user1 initial_state)
       = Inr (initial_state\<lparr> deleteUserDialogOpen := False \<rparr>,
              [UserDetails_delete 1 [Users_get]])
   \<and> completion_refreshes [UserDetails_delete 1 [Users_get]] = 1
   \<and> direct_refreshes [UserDetails_delete 1 [Users_get]] = 0
   \<and> updateUser (Some user1) (ScopeField (Some ''admin''))
       = Inr [UserDetails_patch 1 (ScopeField (Some ''admin'')) [Users_get]]"
  using mutation_refreshes_once_on_completion
    [where e = DeleteSubmit and s = "openDeleteModal user1 initial_state" and u = user1
       and w = user2 and checked = False and bi = empty_banInfo
       and upd = "ScopeField (Some ''admin'')"]
  by (simp add: openDeleteModal_def initial_state_def deleteUser_def updateUser_def user1_def
      completion_refreshes_def direct_refreshes_def)

text \<open>
  Claim C8. Toggling the active switch of the row of user \<open>u\<close> to the value \<open>v\<close>
  dispatches the patch of \<open>u\<close> with \<open>{active: v}\<close>, whose completion dispatches one list
  refresh, and leaves the local state as it was. With the rows of users 1 (inactive) and 2
  (active), the switch of the first row, reporting the negation of what it shows, patches
  user 1 with \<open>{active: true}\<close>.
\<close>

theorem active_toggle_patches_and_refreshes:
  "handle (switch_onChange (renderUserRow u) v) s
     = Inr (s, [UserDetails_patch (user_id u) (ActiveField v) [Users_get]])
   \<and> completion_refreshes [UserDetails_patch (user_id u) (ActiveField v) [Users_get]] = 1
   \<and> direct_refreshes [UserDetails_patch (user_id u) (ActiveField v) [Users_get]] = 0
   \<and> handle (switch_onChange (render_rows [user1, user2] ! 0)
               (\<not> switch_checked (render_rows [user1, user2] ! 0))) s
     = Inr (s, [UserDetails_patch 1 (ActiveField True) [Users_get]])"
  by (simp add: renderUserRow_def render_rows_def updateUser_def user1_def
      completion_refreshes_def direct_refreshes_def)

subsection \<open>Submitting and closing a dialog\<close>

text \<open>
  Claim C5. Whichever dialog is open, its submit handler returns, in that one step and
  without any input from the outcome of the call it dispatches, the closed state with the
  subject null, the ban reason, amount and unit empty and the pending scope null.
\<close>

theorem submit_closes_and_resets:
  assumes "run_modal evs initial_state = Some s" and "enabled s e" and "is_submit e"
  shows "\<exists>s' acts. handle e s = Inr (s', acts) \<and> closed_default s'"
proof -
  from assms(1) have inv: "modal_inv s" by (rule modal_inv_reachable)
  from inv assms(2,3) have "\<exists>s' acts. handle e s = Inr (s', acts)"
    by (cases e)
      (auto simp: modal_inv_def deleteUser_def banUser_def updateUser_def Let_def
        split: option.splits)
  then obtain s' acts where h: "handle e s = Inr (s', acts)" by blast
  from inv assms(2,3) h have "closed_default s'"
    by (cases e)
      (auto simp: modal_inv_def closed_default_def open_count_simp
        deleteUser_def banUser_def updateUser_def Let_def split: if_splits option.splits)
  with h show ?thesis by blast
qed

theorem submit_closes_and_resets_witness:
  "run_modal [BanClick user1, AmountChange ''5'', IndicatorChange ''days''] initial_state
      = Some ban_5_days
   \<and> enabled ban_5_days (BanSubmit ''spam'')
   \<and> is_submit (BanSubmit ''spam'')
   \<and> handle (BanSubmit ''spam'') ban_5_days
      = Inr (initial_state\<lparr> banUserDialogOpen := False \<rparr>,
             [BanUser_post 1 \<lparr> body_reason = ''spam'', body_expire = ''5:days'' \<rparr> [Users_get]])
   \<and> closed_default (initial_state\<lparr> banUserDialogOpen := False \<rparr>)"
  using submit_closes_and_resets
    [of "[BanClick user1, AmountChange ''5'', IndicatorChange ''days'']" ban_5_days
      "BanSubmit ''spam''"]
  by (simp add: ban_5_days_def openBanModal_def initial_state_def empty_banInfo_def user1_def
      open_count_simp closed_default_def banUser_def Let_def)

text \<open>
  Claim C6. Whichever dialog is open, closing it gives the closed state with every
  transient field at its default and dispatches nothing, so that no mutation is issued and
  the store, whatever it holds and however it reacts to actions, stays as it was. In any
  state at all, closing the ban dialog empties reason, amount and unit, and closing the
  scope dialog sets the pending scope to null.
\<close>

theorem close_discards_without_dispatch:
  assumes "run_modal evs initial_state = Some s" and "enabled s e" and "is_close e"
  shows "(\<exists>s' acts. handle e s = Inr (s', acts) \<and> acts = [] \<and> closed_default s'
            \<and> (\<forall>rd (st :: 'st). dispatch_all rd acts st = st))
         \<and> (\<forall>t. \<exists>t'. handle BanClose t = Inr (t', []) \<and> \<not> banUserDialogOpen t'
               \<and> tempUserForDialogs t' = None \<and> reason (banInfo t') = []
               \<and> amount (expire (banInfo t')) = [] \<and> indicator (expire (banInfo t')) = [])
         \<and> (\<forall>t. \<exists>t'. handle ScopeClose t = Inr (t', []) \<and> \<not> truthy (scopeDialogOpen t')
               \<and> tempUserForDialogs t' = None \<and> scope t' = None)"
proof (intro conjI)
  from assms(1) have inv: "modal_inv s" by (rule modal_inv_reachable)
  from assms(3) have "\<exists>s'. handle e s = Inr (s', [])"
    by (cases e) simp_all
  then obtain s' where h: "handle e s = Inr (s', [])" by blast
  from inv assms(2,3) h have "closed_default s'"
    by (cases e)
      (auto simp: modal_inv_def closed_default_def open_count_simp split: if_splits)
  with h show "\<exists>s' acts. handle e s = Inr (s', acts) \<and> acts = [] \<and> closed_default s'
            \<and> (\<forall>rd (st :: 'st). dispatch_all rd acts st = st)"
    by (simp add: dispatch_all_def)
qed (simp_all add: empty_banInfo_def)

text \<open>Opening the delete dialog for user 1 and cancelling: closed, no subject, the list of
  users untouched.\<close>

theorem close_discards_without_dispatch_witness:
  "run_modal [DeleteClick user1] initial_state = Some (openDeleteModal user1 initial_state)
   \<and> enabled (openDeleteModal user1 initial_state) DeleteClose
   \<and> is_close DeleteClose
   \<and> handle DeleteClose (openDeleteModal user1 initial_state)
       = Inr (initial_state\<lparr> deleteUserDialogOpen := False \<rparr>, [])
   \<and> closed_default (initial_state\<lparr> deleteUserDialogOpen := False \<rparr>)
   \<and> dispatch_all (\<lambda>a us. []) [] [user1, user2] = [user1, user2]"
  using close_discards_without_dispatch
    [where ?'st = "user list", of "[DeleteClick user1]" "openDeleteModal user1 initial_state"
      DeleteClose]
  by (simp add: openDeleteModal_def initial_state_def open_count_simp closed_default_def
      dispatch_all_def)

end
